theory Spec2Isabelle
  imports Complex_Main "HOL-Library.Word"
begin

unbundle bit_operations_syntax

section \<open>stress-atomic.c: the atomic builtins and the shims\<close>

text \<open>
  The stressor exercises the compiler's \<^verbatim>\<open>__atomic\<close> builtins on \<^verbatim>\<open>uint64_t\<close>,
  \<^verbatim>\<open>uint32_t\<close>, \<^verbatim>\<open>uint16_t\<close> and \<^verbatim>\<open>uint8_t\<close>, modelled as \<open>'a word\<close>.
  Every shim discards the builtin's return value, so a builtin is modelled by what it
  leaves in the variable: a function from the old content (and the operand) to the new
  content. \<open>a_load\<close> takes the content and the old value of the destination and gives the
  new value of the destination. The builtins are a parameter of the model, because the
  verification in \<^verbatim>\<open>DO_ATOMIC_OPS\<close> exists to detect builtins that do not behave;
  a shim that is compiled to \<^verbatim>\<open>DO_NOTHING()\<close> is the builtin that leaves everything as
  it was.
\<close>

record (overloaded) 'a atomics =
  a_add_fetch :: "'a word \<Rightarrow> 'a word \<Rightarrow> 'a word"
  a_and_fetch :: "'a word \<Rightarrow> 'a word \<Rightarrow> 'a word"
  a_clear :: "'a word \<Rightarrow> 'a word"
  a_fetch_add :: "'a word \<Rightarrow> 'a word \<Rightarrow> 'a word"
  a_fetch_and :: "'a word \<Rightarrow> 'a word \<Rightarrow> 'a word"
  a_fetch_nand :: "'a word \<Rightarrow> 'a word \<Rightarrow> 'a word"
  a_fetch_or :: "'a word \<Rightarrow> 'a word \<Rightarrow> 'a word"
  a_fetch_sub :: "'a word \<Rightarrow> 'a word \<Rightarrow> 'a word"
  a_fetch_xor :: "'a word \<Rightarrow> 'a word \<Rightarrow> 'a word"
  a_load :: "'a word \<Rightarrow> 'a word \<Rightarrow> 'a word"
  a_nand_fetch :: "'a word \<Rightarrow> 'a word \<Rightarrow> 'a word"
  a_or_fetch :: "'a word \<Rightarrow> 'a word \<Rightarrow> 'a word"
  a_store :: "'a word \<Rightarrow> 'a word \<Rightarrow> 'a word"
  a_sub_fetch :: "'a word \<Rightarrow> 'a word \<Rightarrow> 'a word"
  a_xor_fetch :: "'a word \<Rightarrow> 'a word \<Rightarrow> 'a word"

text \<open>The builtins as GCC documents them, run by one process alone.\<close>

definition gcc_atomics :: "'a::len atomics" where
  "gcc_atomics =
     \<lparr> a_add_fetch = (\<lambda>x v. x + v),
       a_and_fetch = (\<lambda>x v. x AND v),
       a_clear = (\<lambda>x. 0),
       a_fetch_add = (\<lambda>x v. x + v),
       a_fetch_and = (\<lambda>x v. x AND v),
       a_fetch_nand = (\<lambda>x v. NOT (x AND v)),
       a_fetch_or = (\<lambda>x v. x OR v),
       a_fetch_sub = (\<lambda>x v. x - v),
       a_fetch_xor = (\<lambda>x v. x XOR v),
       a_load = (\<lambda>x d. x),
       a_nand_fetch = (\<lambda>x v. NOT (x AND v)),
       a_or_fetch = (\<lambda>x v. x OR v),
       a_store = (\<lambda>x v. v),
       a_sub_fetch = (\<lambda>x v. x - v),
       a_xor_fetch = (\<lambda>x v. x XOR v) \<rparr>"

text \<open>
  \<^verbatim>\<open>SHIM_ATOMIC_FETCH_NAND\<close> and \<^verbatim>\<open>SHIM_ATOMIC_NAND_FETCH\<close>: the builtin itself when
  the compiler is GCC other than 11 (\<open>direct = True\<close>), otherwise an AND followed by an
  XOR with \<^verbatim>\<open>~0\<close>. \<^verbatim>\<open>~0\<close> is the \<^verbatim>\<open>int\<close> \<open>-1\<close>, converted to the variable's type.
\<close>

definition SHIM_ATOMIC_FETCH_NAND :: "bool \<Rightarrow> 'a::len atomics \<Rightarrow> 'a word \<Rightarrow> 'a word \<Rightarrow> 'a word" where
  "SHIM_ATOMIC_FETCH_NAND direct a var val =
     (if direct then a_fetch_nand a var val
      else a_fetch_xor a (a_fetch_and a var val) (word_of_int (NOT 0)))"

definition SHIM_ATOMIC_NAND_FETCH :: "bool \<Rightarrow> 'a::len atomics \<Rightarrow> 'a word \<Rightarrow> 'a word \<Rightarrow> 'a word" where
  "SHIM_ATOMIC_NAND_FETCH direct a var val =
     (if direct then a_nand_fetch a var val
      else a_xor_fetch a (a_and_fetch a var val) (word_of_int (NOT 0)))"

subsection \<open>The batch of atomic operations\<close>

text \<open>
  The part of \<^verbatim>\<open>DO_ATOMIC_OPS\<close> that works on the shared variable \<^verbatim>\<open>var\<close>. The state
  is the pair of the variable's content and the local \<^verbatim>\<open>tmp\<close>, which the loads
  overwrite. \<^verbatim>\<open>(type)~1\<close> is the \<^verbatim>\<open>int\<close> \<open>NOT 1\<close> converted to the type.
\<close>

type_synonym 'a shared_state = "'a word \<times> 'a word"

definition st_store :: "'a::len atomics \<Rightarrow> 'a shared_state \<Rightarrow> 'a shared_state" where
  "st_store a s = (a_store a (fst s) (snd s), snd s)"

definition st_load :: "'a::len atomics \<Rightarrow> 'a shared_state \<Rightarrow> 'a shared_state" where
  "st_load a s = (fst s, a_load a (fst s) (snd s))"

definition st_op :: "('a word \<Rightarrow> 'a word \<Rightarrow> 'a word) \<Rightarrow> 'a word \<Rightarrow> 'a::len shared_state \<Rightarrow> 'a shared_state" where
  "st_op f v s = (f (fst s) v, snd s)"

definition st_clear :: "'a::len atomics \<Rightarrow> 'a shared_state \<Rightarrow> 'a shared_state" where
  "st_clear a s = (a_clear a (fst s), snd s)"

definition shared_ops :: "bool \<Rightarrow> 'a::len atomics \<Rightarrow> ('a shared_state \<Rightarrow> 'a shared_state) list" where
  "shared_ops direct a =
    [ st_store a,
      st_load a,
      st_load a,
      st_op (a_add_fetch a) 1,
      st_op (a_add_fetch a) 2,
      st_op (a_sub_fetch a) 3,
      st_op (a_sub_fetch a) 4,
      st_op (a_and_fetch a) (word_of_int (NOT 1)),
      st_op (a_and_fetch a) (word_of_int (NOT 2)),
      st_op (a_xor_fetch a) (word_of_int (NOT 4)),
      st_op (a_xor_fetch a) (word_of_int (NOT 8)),
      st_op (a_or_fetch a) 16,
      st_op (a_or_fetch a) 32,
      st_op (SHIM_ATOMIC_NAND_FETCH direct a) 64,
      st_op (SHIM_ATOMIC_NAND_FETCH direct a) 128,
      st_clear a,

      st_store a,
      st_op (a_fetch_add a) 1,
      st_op (a_fetch_add a) 2,
      st_op (a_fetch_sub a) 3,
      st_op (a_fetch_sub a) 4,
      st_op (a_fetch_and a) (word_of_int (NOT 1)),
      st_op (a_fetch_and a) (word_of_int (NOT 2)),
      st_op (a_fetch_xor a) (word_of_int (NOT 4)),
      st_op (a_fetch_xor a) (word_of_int (NOT 8)),
      st_op (a_fetch_or a) 16,
      st_op (a_fetch_or a) 32,
      st_op (SHIM_ATOMIC_FETCH_NAND direct a) 64,
      st_op (SHIM_ATOMIC_FETCH_NAND direct a) 128,
      st_clear a,

      st_store a,
      st_load a,
      st_op (a_add_fetch a) 1,
      st_op (a_sub_fetch a) 3,
      st_op (a_and_fetch a) (word_of_int (NOT 1)),
      st_op (a_xor_fetch a) (word_of_int (NOT 4)),
      st_op (a_or_fetch a) 16,
      st_op (SHIM_ATOMIC_NAND_FETCH direct a) 64,
      st_load a,
      st_op (a_add_fetch a) 2,
      st_op (a_sub_fetch a) 4,
      st_op (a_and_fetch a) (word_of_int (NOT 2)),
      st_op (a_xor_fetch a) (word_of_int (NOT 8)),
      st_op (a_or_fetch a) 32,
      st_op (SHIM_ATOMIC_NAND_FETCH direct a) 128,
      st_clear a,

      st_store a,
      st_op (a_fetch_add a) 1,
      st_op (a_fetch_sub a) 3,
      st_op (a_fetch_and a) (word_of_int (NOT 1)),
      st_op (a_fetch_xor a) (word_of_int (NOT 4)),
      st_op (a_fetch_or a) 16,
      st_op (SHIM_ATOMIC_FETCH_NAND direct a) 64,
      st_op (a_fetch_add a) 2,
      st_op (a_fetch_sub a) 4,
      st_op (a_fetch_and a) (word_of_int (NOT 2)),
      st_op (a_fetch_xor a) (word_of_int (NOT 8)),
      st_op (a_fetch_or a) 32,
      st_op (SHIM_ATOMIC_FETCH_NAND direct a) 128,
      st_clear a ]"

definition run_shared_ops :: "bool \<Rightarrow> 'a::len atomics \<Rightarrow> 'a shared_state \<Rightarrow> 'a shared_state" where
  "run_shared_ops direct a s = fold (\<lambda>f t. f t) (shared_ops direct a) s"

text \<open>
  What one expansion of \<^verbatim>\<open>DO_ATOMIC_OPS\<close> leaves behind: the status \<^verbatim>\<open>rc\<close>, the two
  accumulators and the shared variable. Its inputs beyond the macro's arguments are the
  value of \<^verbatim>\<open>stress_mwc64()\<close>, the indeterminate first content of the local
  \<^verbatim>\<open>unshared\<close>, and the two readings of \<^verbatim>\<open>stress_time_now()\<close>. \<^verbatim>\<open>double\<close> is modelled
  by \<open>real\<close>.
\<close>

record (overloaded) 'a batch =
  b_rc :: int
  b_duration :: real
  b_count :: real
  b_var :: "'a word"

definition DO_ATOMIC_OPS ::
  "bool \<Rightarrow> 'a::len atomics \<Rightarrow> 64 word \<Rightarrow> 64 word \<Rightarrow> real \<Rightarrow> real \<Rightarrow>
   'a word \<Rightarrow> real \<Rightarrow> real \<Rightarrow> int \<Rightarrow> 'a batch" where
  "DO_ATOMIC_OPS direct a mwc64 junk now1 now2 var duration count rc =
     (let tmp = ucast mwc64;
          check1 = tmp;
          check2 = NOT tmp;
          t = now1;
          unshared = a_store a (ucast junk) check1;
          unshared = a_add_fetch a unshared 2;
          unshared = a_sub_fetch a unshared 1;
          check2 = a_load a unshared check2;
          var_tmp = run_shared_ops direct a (var, tmp);
          duration = duration + (now2 - t);
          count = count + 64;
          check2 = check2 - 1
      in if check2 \<noteq> check1
         then \<lparr> b_rc = -1, b_duration = duration, b_count = count, b_var = fst var_tmp \<rparr>
         else \<lparr> b_rc = rc, b_duration = duration, b_count = count, b_var = fst var_tmp \<rparr>)"



subsection \<open>The four exercise functions\<close>

text \<open>
  What the build fixes: whether the NAND shims use the builtin (GCC other than 11), and
  \<^verbatim>\<open>sizeof(long int)\<close> in bytes, which \<^verbatim>\<open>stress_atomic_uint64\<close> compares with
  \<^verbatim>\<open>sizeof(uint64_t)\<close>, 8.
\<close>

record build_cfg =
  nand_direct :: bool
  sizeof_long :: nat

text \<open>
  What one call of an exercise function takes from outside: the random number, the
  indeterminate first content of the local \<^verbatim>\<open>unshared\<close>, the content of the shared
  variable, the two clock readings and the builtins of each width.
\<close>

record (overloaded) call_env =
  c_mwc64 :: "64 word"
  c_junk :: "64 word"
  c_shared :: "64 word"
  c_now1 :: real
  c_now2 :: real
  c_hw64 :: "64 atomics"
  c_hw32 :: "32 atomics"
  c_hw16 :: "16 atomics"
  c_hw8 :: "8 atomics"

text \<open>
  An \<^verbatim>\<open>atomic_func_t\<close> takes the two accumulators by reference and returns a status:
  the model returns the status and the accumulators. The static \<^verbatim>\<open>idx\<close> only chooses
  which of the shared variables is worked on, and no result reads the shared variable,
  so its content comes from the environment and is not kept.
\<close>

type_synonym atomic_func_t = "build_cfg \<Rightarrow> call_env \<Rightarrow> real \<Rightarrow> real \<Rightarrow> int \<times> real \<times> real"

definition batch_result :: "'a::len batch \<Rightarrow> int \<times> real \<times> real" where
  "batch_result b = (b_rc b, b_duration b, b_count b)"

definition stress_atomic_uint64 :: atomic_func_t where
  "stress_atomic_uint64 cfg e duration count =
     (let rc = 0 in
      if sizeof_long cfg = 8
      then batch_result (DO_ATOMIC_OPS (nand_direct cfg) (c_hw64 e) (c_mwc64 e) (c_junk e)
             (c_now1 e) (c_now2 e) (ucast (c_shared e)) duration count rc)
      else (rc, duration, count))"

definition stress_atomic_uint32 :: atomic_func_t where
  "stress_atomic_uint32 cfg e duration count =
     (let rc = 0 in
      batch_result (DO_ATOMIC_OPS (nand_direct cfg) (c_hw32 e) (c_mwc64 e) (c_junk e)
             (c_now1 e) (c_now2 e) (ucast (c_shared e)) duration count rc))"

definition stress_atomic_uint16 :: atomic_func_t where
  "stress_atomic_uint16 cfg e duration count =
     (let rc = 0 in
      batch_result (DO_ATOMIC_OPS (nand_direct cfg) (c_hw16 e) (c_mwc64 e) (c_junk e)
             (c_now1 e) (c_now2 e) (ucast (c_shared e)) duration count rc))"

definition stress_atomic_uint8 :: atomic_func_t where
  "stress_atomic_uint8 cfg e duration count =
     (let rc = 0 in
      batch_result (DO_ATOMIC_OPS (nand_direct cfg) (c_hw8 e) (c_mwc64 e) (c_junk e)
             (c_now1 e) (c_now2 e) (ucast (c_shared e)) duration count rc))"

definition atomic_func_info :: "(atomic_func_t \<times> string) list" where
  "atomic_func_info =
     [ (stress_atomic_uint64, ''uint64''),
       (stress_atomic_uint32, ''uint32''),
       (stress_atomic_uint16, ''uint16''),
       (stress_atomic_uint8, ''uint8'') ]"

definition STRESS_ATOMIC_MAX_PROCS :: nat where
  "STRESS_ATOMIC_MAX_PROCS = 3"

definition STRESS_ATOMIC_MAX_FUNCS :: nat where
  "STRESS_ATOMIC_MAX_FUNCS = length atomic_func_info"

subsection \<open>The shared metrics and the exercise loop\<close>

record stress_metrics_t =
  duration :: real
  count :: real

record stress_atomic_info_t =
  metrics :: "stress_metrics_t list"
  pid :: int

text \<open>
  The mapped region is the array of slots; a pointer \<^verbatim>\<open>&atomic_info[p]\<close> is the index
  \<open>p\<close>. A worker's state is the region, what is left of the calls it will make before
  it is killed, its bogo-op counter, and a log of the calls made: the index of the
  function and the status it returned.
\<close>

record (overloaded) worker_state =
  w_region :: "stress_atomic_info_t list"
  w_calls :: "call_env list"
  w_bogo :: nat
  w_log :: "(nat \<times> int) list"

datatype outcome = Returned int | Interrupted

text \<open>
  One call \<^verbatim>\<open>func(args, &atomic_info->metrics[i].duration, &atomic_info->metrics[i].count)\<close>
  through the slot pointer \<open>p\<close>.
\<close>

definition call_func :: "build_cfg \<Rightarrow> atomic_func_t \<Rightarrow> call_env \<Rightarrow> nat \<Rightarrow> nat \<Rightarrow>
    stress_atomic_info_t list \<Rightarrow> int \<times> stress_atomic_info_t list" where
  "call_func cfg func e p i region =
     (let slot = region ! p;
          m = metrics slot ! i;
          r = func cfg e (duration m) (count m);
          m' = m\<lparr> duration := fst (snd r), count := snd (snd r) \<rparr>
      in (fst r, region[p := slot\<lparr> metrics := (metrics slot)[i := m'] \<rparr>]))"

definition rounds :: nat where
  "rounds = 1000"

text \<open>
  The loop over \<open>j\<close>, by the number of rounds still to run. A result \<open>None\<close> is the loop
  running to its end; \<open>Some\<close> is the function ending inside it. A worker with no call
  left has been killed.
\<close>

fun rounds_loop :: "build_cfg \<Rightarrow> atomic_func_t \<Rightarrow> nat \<Rightarrow> nat \<Rightarrow> nat \<Rightarrow> worker_state \<Rightarrow>
    outcome option \<times> worker_state" where
  "rounds_loop cfg func p i 0 s = (None, s)"
| "rounds_loop cfg func p i (Suc n) s =
     (case w_calls s of
        [] \<Rightarrow> (Some Interrupted, s)
      | e # es \<Rightarrow>
          (let r = call_func cfg func e p i (w_region s);
               s' = s\<lparr> w_region := snd r, w_calls := es, w_log := w_log s @ [(i, fst r)] \<rparr>
           in if fst r < 0 then (Some (Returned (- 1)), s')
              else rounds_loop cfg func p i n s'))"

text \<open>The loop over \<open>i\<close>, by the functions of \<^verbatim>\<open>atomic_func_info\<close> still to run.\<close>

fun funcs_loop :: "build_cfg \<Rightarrow> (atomic_func_t \<times> string) list \<Rightarrow> nat \<Rightarrow> nat \<Rightarrow> worker_state \<Rightarrow>
    outcome option \<times> worker_state" where
  "funcs_loop cfg [] p i s = (None, s)"
| "funcs_loop cfg (f # fs) p i s =
     (case rounds_loop cfg (fst f) p i rounds s of
        (Some out, s') \<Rightarrow> (Some out, s')
      | (None, s') \<Rightarrow> funcs_loop cfg fs p (Suc i) s')"

text \<open>
  \<^verbatim>\<open>stress_atomic_exercise\<close>: the \<^verbatim>\<open>do ... while (stress_continue(args))\<close> loop. The list
  gives what \<^verbatim>\<open>stress_continue\<close> returns at the end of each pass; a worker whose list
  runs out is still looping when it is killed, so the loop that never ends is the result
  \<open>Interrupted\<close>, not a return.
\<close>

fun stress_atomic_exercise :: "build_cfg \<Rightarrow> bool list \<Rightarrow> nat \<Rightarrow> worker_state \<Rightarrow>
    outcome \<times> worker_state" where
  "stress_atomic_exercise cfg [] p s =
     (case funcs_loop cfg atomic_func_info p 0 s of
        (Some out, s') \<Rightarrow> (out, s')
      | (None, s') \<Rightarrow> (Interrupted, s'\<lparr> w_bogo := Suc (w_bogo s') \<rparr>))"
| "stress_atomic_exercise cfg (c # cs) p s =
     (case funcs_loop cfg atomic_func_info p 0 s of
        (Some out, s') \<Rightarrow> (out, s')
      | (None, s') \<Rightarrow>
          (let s'' = s'\<lparr> w_bogo := Suc (w_bogo s') \<rparr>
           in if c then stress_atomic_exercise cfg cs p s'' else (Returned 0, s'')))"


subsection \<open>stress\_atomic: workers, reaping and aggregation\<close>

datatype exit_status = EXIT_SUCCESS | EXIT_FAILURE | EXIT_NO_RESOURCE | EXIT_OTHER nat

datatype wait_status = W_exited exit_status | W_signaled nat

definition SIGKILL :: nat where
  "SIGKILL = 9"

datatype fp_error = Division_by_zero

text \<open>
  The C division of two \<^verbatim>\<open>double\<close>s, with the division by zero made a value of its
  own, so that a division by zero that the code performed would show in the result.
\<close>

definition fdiv :: "real \<Rightarrow> real \<Rightarrow> fp_error + real" where
  "fdiv x y = (if y = 0 then Inl Division_by_zero else Inr (x / y))"

datatype proc_state = STRESS_STATE_RUN | STRESS_STATE_DEINIT

datatype atomic_event =
    A_pr_inf_skip
  | A_set_proc_state proc_state
  | A_fork nat int
  | A_exercise nat
  | A_waitpid_nohang nat
  | A_force_killed_bogo
  | A_kill nat nat
  | A_waitpid nat
  | A_metrics_set nat string "fp_error + real"
  | A_munmap

text \<open>
  What the run takes from outside: whether \<^verbatim>\<open>mmap\<close> succeeds, the pid each
  \<^verbatim>\<open>fork\<close> returns to the parent (negative when it fails), what each worker will meet
  (its calls and its \<^verbatim>\<open>stress_continue\<close> results), what the non-blocking
  \<^verbatim>\<open>waitpid\<close> reports for each child (\<open>None\<close> when it does not return the child's
  pid), and whether \<^verbatim>\<open>shim_kill(pid, 0)\<close> succeeds.
\<close>

record (overloaded) atomic_env =
  e_mmap_ok :: bool
  e_fork :: "nat \<Rightarrow> int"
  e_child_calls :: "nat \<Rightarrow> call_env list"
  e_child_continue :: "nat \<Rightarrow> bool list"
  e_parent_calls :: "call_env list"
  e_parent_continue :: "bool list"
  e_wnohang :: "nat \<Rightarrow> wait_status option"
  e_kill0 :: "nat \<Rightarrow> bool"

definition n_atomic_procs :: nat where
  "n_atomic_procs = STRESS_ATOMIC_MAX_PROCS + 1"

text \<open>The initialisation loop: every slot's pid is -1 and every metric is zero.\<close>

definition init_region :: "stress_atomic_info_t list" where
  "init_region =
     replicate n_atomic_procs
       \<lparr> metrics = replicate STRESS_ATOMIC_MAX_FUNCS \<lparr> duration = 0, count = 0 \<rparr>, pid = - 1 \<rparr>"

definition new_worker :: "stress_atomic_info_t list \<Rightarrow> call_env list \<Rightarrow> worker_state" where
  "new_worker region calls = \<lparr> w_region = region, w_calls = calls, w_bogo = 0, w_log = [] \<rparr>"

text \<open>
  The child's branch after \<^verbatim>\<open>fork\<close>: it exercises its own slot \<^verbatim>\<open>&atomic_info[i]\<close>
  and exits with \<^verbatim>\<open>EXIT_FAILURE\<close> when the exercise returns a negative status, with
  \<^verbatim>\<open>EXIT_SUCCESS\<close> otherwise. A child that is killed first has no exit status.
\<close>

definition atomic_child :: "build_cfg \<Rightarrow> atomic_env \<Rightarrow> nat \<Rightarrow> stress_atomic_info_t list \<Rightarrow>
    exit_status option \<times> stress_atomic_info_t list" where
  "atomic_child cfg env i region =
     (case stress_atomic_exercise cfg (e_child_continue env i) i
             (new_worker region (e_child_calls env i)) of
        (Returned r, s) \<Rightarrow> (Some (if r < 0 then EXIT_FAILURE else EXIT_SUCCESS), w_region s)
      | (Interrupted, s) \<Rightarrow> (None, w_region s))"

text \<open>
  The parent's side of the fork loop. The region is shared, so what child \<open>i\<close> writes is
  in the region the parent reads later; the children run at the same time as the parent,
  and the model lets each one run when it is forked.
\<close>

definition fork_step :: "build_cfg \<Rightarrow> atomic_env \<Rightarrow> nat \<Rightarrow>
    stress_atomic_info_t list \<times> atomic_event list \<Rightarrow> stress_atomic_info_t list \<times> atomic_event list" where
  "fork_step cfg env i st =
     (let pid = e_fork env i;
          region = (if pid > 0 then snd (atomic_child cfg env i (fst st)) else fst st)
      in (region[i := (region ! i)\<lparr> pid := pid \<rparr>], snd st @ [A_fork i pid]))"

text \<open>The reaping loop: one child.\<close>

definition reap_step :: "atomic_env \<Rightarrow> stress_atomic_info_t list \<Rightarrow> nat \<Rightarrow>
    exit_status \<times> atomic_event list \<Rightarrow> exit_status \<times> atomic_event list" where
  "reap_step env region i st =
     (if pid (region ! i) > 0 then
        (case e_wnohang env i of
           Some (W_exited code) \<Rightarrow>
             (if code = EXIT_FAILURE then EXIT_FAILURE else fst st,
              snd st @ [A_waitpid_nohang i])
         | _ \<Rightarrow>
             (fst st,
              snd st @ [A_waitpid_nohang i]
                @ (if e_kill0 env i then [A_force_killed_bogo, A_kill i SIGKILL] else [])
                @ [A_waitpid i]))
      else st)"

text \<open>The aggregation loop: the sums over all slots for one kind \<open>j\<close>, and the rate.\<close>

definition sum_slots :: "stress_atomic_info_t list \<Rightarrow> nat \<Rightarrow> real \<times> real" where
  "sum_slots region j =
     fold (\<lambda>i acc. (fst acc + duration (metrics (region ! i) ! j),
                    snd acc + count (metrics (region ! i) ! j)))
       [0..<n_atomic_procs] (0, 0)"

definition rate_of :: "real \<times> real \<Rightarrow> fp_error + real" where
  "rate_of acc = (if fst acc > 0 then fdiv (snd acc) (fst acc) else Inr 0)"

definition aggregate_step :: "stress_atomic_info_t list \<Rightarrow> nat \<Rightarrow> atomic_event list \<Rightarrow> atomic_event list" where
  "aggregate_step region j tr =
     tr @ [A_metrics_set j (snd (atomic_func_info ! j) @ '' atomic ops per sec'')
             (rate_of (sum_slots region j))]"

record atomic_result =
  r_status :: "exit_status option"
  r_region :: "stress_atomic_info_t list"
  r_trace :: "atomic_event list"

text \<open>
  The fork loop of \<^verbatim>\<open>stress_atomic\<close> from the initialised region, and the parent's
  own exercise on the last slot, \<^verbatim>\<open>&atomic_info[n_atomic_procs - 1]\<close>.
\<close>

definition forked :: "build_cfg \<Rightarrow> atomic_env \<Rightarrow> stress_atomic_info_t list \<times> atomic_event list" where
  "forked cfg env =
     fold (fork_step cfg env) [0..<STRESS_ATOMIC_MAX_PROCS]
       (init_region, [A_set_proc_state STRESS_STATE_RUN])"

definition parent_exercise :: "build_cfg \<Rightarrow> atomic_env \<Rightarrow> outcome \<times> worker_state" where
  "parent_exercise cfg env =
     stress_atomic_exercise cfg (e_parent_continue env) (n_atomic_procs - 1)
       (new_worker (fst (forked cfg env)) (e_parent_calls env))"

text \<open>
  \<^verbatim>\<open>stress_atomic\<close>. The status is \<open>None\<close> when the parent itself is killed inside its
  exercise and so never returns.
\<close>

definition stress_atomic :: "build_cfg \<Rightarrow> atomic_env \<Rightarrow> atomic_result" where
  "stress_atomic cfg env =
     (if \<not> e_mmap_ok env
      then \<lparr> r_status = Some EXIT_NO_RESOURCE, r_region = [], r_trace = [A_pr_inf_skip] \<rparr>
      else
        (let ex = parent_exercise cfg env;
             region = w_region (snd ex);
             tr1 = snd (forked cfg env) @ [A_exercise (n_atomic_procs - 1)]
         in case fst ex of
              Interrupted \<Rightarrow> \<lparr> r_status = None, r_region = region, r_trace = tr1 \<rparr>
            | Returned r \<Rightarrow>
                (let rc = (if r < 0 then EXIT_FAILURE else EXIT_SUCCESS);
                     st2 = fold (reap_step env region) [0..<STRESS_ATOMIC_MAX_PROCS] (rc, tr1);
                     tr3 = fold (aggregate_step region) [0..<STRESS_ATOMIC_MAX_FUNCS] (snd st2)
                 in \<lparr> r_status = Some (fst st2), r_region = region,
                      r_trace = tr3 @ [A_set_proc_state STRESS_STATE_DEINIT, A_munmap] \<rparr>)))"

text \<open>
  The worker ordinals of \<^verbatim>\<open>stress_atomic\<close> and the slot each is given: child \<open>i\<close> the
  slot \<open>i\<close>, the parent the last one.
\<close>

datatype worker = Child nat | Parent

fun worker_slot :: "worker \<Rightarrow> nat" where
  "worker_slot (Child i) = i"
| "worker_slot Parent = n_atomic_procs - 1"

fun is_worker :: "worker \<Rightarrow> bool" where
  "is_worker (Child i) = (i < STRESS_ATOMIC_MAX_PROCS)"
| "is_worker Parent = True"


subsection \<open>The verification of a batch, and sample inputs\<close>




text \<open>A build with 64-bit \<^verbatim>\<open>long\<close> and one with 32-bit \<^verbatim>\<open>long\<close>.\<close>

definition cfg_lp64 :: build_cfg where
  "cfg_lp64 = \<lparr> nand_direct = True, sizeof_long = 8 \<rparr>"

definition cfg_ilp32 :: build_cfg where
  "cfg_ilp32 = \<lparr> nand_direct = True, sizeof_long = 4 \<rparr>"

text \<open>A call on working builtins that takes half a second.\<close>

definition good_call :: call_env where
  "good_call =
     \<lparr> c_mwc64 = 0x0123456789ABCDEF, c_junk = 0, c_shared = 0, c_now1 = 10, c_now2 = 10.5,
       c_hw64 = gcc_atomics, c_hw32 = gcc_atomics, c_hw16 = gcc_atomics, c_hw8 = gcc_atomics \<rparr>"

text \<open>Builtins whose \<^verbatim>\<open>__atomic_add_fetch\<close> loses the addition, and a call on them.\<close>

definition broken_atomics :: "'a::len atomics" where
  "broken_atomics = gcc_atomics\<lparr> a_add_fetch := (\<lambda>x v. x) \<rparr>"

definition bad_call :: call_env where
  "bad_call = good_call\<lparr> c_hw64 := broken_atomics \<rparr>"

text \<open>
  A run in which \<^verbatim>\<open>mmap\<close> fails, and one in which it succeeds, every \<^verbatim>\<open>fork\<close>
  fails and the parent meets a failing batch at its second call.
\<close>

definition env_no_mmap :: atomic_env where
  "env_no_mmap =
     \<lparr> e_mmap_ok = False, e_fork = (\<lambda>i. 100 + int i),
       e_child_calls = (\<lambda>i. []), e_child_continue = (\<lambda>i. []),
       e_parent_calls = [], e_parent_continue = [],
       e_wnohang = (\<lambda>i. None), e_kill0 = (\<lambda>i. True) \<rparr>"

definition env_parent_fails :: atomic_env where
  "env_parent_fails =
     \<lparr> e_mmap_ok = True, e_fork = (\<lambda>i. - 1),
       e_child_calls = (\<lambda>i. []), e_child_continue = (\<lambda>i. []),
       e_parent_calls = [good_call, bad_call, good_call], e_parent_continue = [False],
       e_wnohang = (\<lambda>i. None), e_kill0 = (\<lambda>i. False) \<rparr>"

definition sample_region :: "stress_atomic_info_t list" where
  "sample_region =
     [ \<lparr> metrics = replicate 4 \<lparr> duration = 2, count = 10 \<rparr>, pid = 100 \<rparr>,
       \<lparr> metrics = replicate 4 \<lparr> duration = 3, count = 5 \<rparr>, pid = 101 \<rparr>,
       \<lparr> metrics = replicate 4 \<lparr> duration = 0, count = 0 \<rparr>, pid = - 1 \<rparr>,
       \<lparr> metrics = replicate 4 \<lparr> duration = 0, count = 0 \<rparr>, pid = - 1 \<rparr> ]"

text \<open>
  One call made by the loop over \<open>j\<close>, as a step on the worker's state: the body of
  \<open>rounds_loop\<close> for a worker that has the call \<open>e\<close> next.
\<close>

definition call_step :: "build_cfg \<Rightarrow> atomic_func_t \<Rightarrow> call_env \<Rightarrow> nat \<Rightarrow> nat \<Rightarrow> worker_state \<Rightarrow> worker_state" where
  "call_step cfg func e p i s =
     s\<lparr> w_region := snd (call_func cfg func e p i (w_region s)), w_calls := tl (w_calls s),
        w_log := w_log s @ [(i, fst (call_func cfg func e p i (w_region s)))] \<rparr>"







definition clock_ok :: "call_env \<Rightarrow> bool" where
  "clock_ok e = (c_now1 e \<le> c_now2 e)"

text \<open>No duration and no count of the first region is larger than in the second.\<close>

definition grows :: "stress_atomic_info_t list \<Rightarrow> stress_atomic_info_t list \<Rightarrow> bool" where
  "grows r r' = (\<forall>q j. duration (metrics (r ! q) ! j) \<le> duration (metrics (r' ! q) ! j)
                     \<and> count (metrics (r ! q) ! j) \<le> count (metrics (r' ! q) ! j))"


section \<open>The fork-and-wait loops of stress-cgroup.c and stress-dev.c\<close>

datatype errno = EAGAIN | ENOMEM | EINTR | ENOSPC | ENODEV | ERRNO_OTHER nat


text \<open>
  What the parent sees of one \<^verbatim>\<open>fork\<close>: a failure with its \<^verbatim>\<open>errno\<close>, or the
  child's pid together with what the blocking \<^verbatim>\<open>shim_waitpid\<close> on it returns.
\<close>

datatype wait_result = Wait_failed errno | Wait_ok wait_status



datatype sup_event =
    S_set_proc_state proc_state
  | S_again bool
  | S_fork_failed errno
  | S_redo_fork bool
  | S_continue_after_fail bool
  | S_pr_err
  | S_forked int
  | S_setpgid
  | S_waitpid wait_result
  | S_pr_dbg_waitpid
  | S_kill nat
  | S_kill_pid
  | S_waitpid_again
  | S_pr_dbg_child_died nat
  | S_log_system_mem_info
  | S_pr_dbg_restart
  | S_pr_fail
  | S_while bool
  | S_spin_destroy
  | S_return exit_status

type_synonym sup_run = "sup_event list \<times> exit_status option"

definition emit :: "sup_event list \<Rightarrow> sup_run \<Rightarrow> sup_run" where
  "emit evs r = (evs @ fst r, snd r)"

subsection \<open>stress\_cgroup\_mount\<close>





subsection \<open>stress\_dev\<close>




subsection \<open>What may follow what in a run\<close>












section \<open>stress-dev.c: exercising one device under the deadline\<close>

text \<open>
  What the build decides in \<^verbatim>\<open>stress_dev_rw\<close>: the blocks under \<^verbatim>\<open>#if\<close>, and the table
  \<^verbatim>\<open>dev_funcs\<close>, given by its device paths (\<^verbatim>\<open>devpath_len\<close> is the length of the path).
\<close>

record dev_cfg =
  c_termios :: bool
  c_hdreg :: bool
  c_not_netbsd :: bool
  c_f_getfd :: bool
  c_f_getfl :: bool
  c_f_getsig :: bool
  c_dev_funcs :: "string list"

datatype whence = SEEK_SET | SEEK_CUR | SEEK_END

datatype prot = PROT_READ | PROT_WRITE

datatype map_flag = MAP_PRIVATE | MAP_SHARED

datatype rw_event =
    R_spin_lock
  | R_strlcpy
  | R_spin_unlock
  | R_time_now
  | R_open_rdonly bool
  | R_close
  | R_fstat
  | R_pr_fail
  | R_dev_blk
  | R_dev_scsi_blk
  | R_dev_hd_linux
  | R_ioctl_tcgets
  | R_dev_tty
  | R_lseek whence
  | R_uint64_put
  | R_poll
  | R_select
  | R_fcntl_getfd
  | R_fcntl_getfl
  | R_fcntl_getsig
  | R_mmap prot map_flag
  | R_munmap
  | R_fsync
  | R_dev_func nat
  | R_open_rdwr bool

text \<open>
  What one pass over a device takes from outside: the readings of
  \<^verbatim>\<open>stress_time_now()\<close> in the order they are taken (reading 0 is \<^verbatim>\<open>t_start\<close>), the
  results of the three \<^verbatim>\<open>open\<close> calls (\<open>None\<close> for success, otherwise the
  \<^verbatim>\<open>errno\<close>), of \<^verbatim>\<open>fstat\<close> and the \<^verbatim>\<open>TCGETS\<close> ioctl, what the \<^verbatim>\<open>stat\<close> buffer
  says (also when \<^verbatim>\<open>fstat\<close> failed and left it as it was), and whether each
  \<^verbatim>\<open>mmap\<close> succeeds.
\<close>

record rw_env =
  d_clock :: "nat \<Rightarrow> real"
  d_open1 :: "errno option"
  d_fstat_ok :: bool
  d_isblk :: bool
  d_ischr :: bool
  d_tcgets_ok :: bool
  d_mmap_ok :: "prot \<Rightarrow> map_flag \<Rightarrow> bool"
  d_open2 :: "errno option"
  d_open3_ok :: bool

definition threshold :: real where
  "threshold = 0.25"

text \<open>The test \<^verbatim>\<open>stress_time_now() - t_start > threshold\<close> at the \<open>k\<close>-th reading.\<close>

definition exceeded :: "rw_env \<Rightarrow> nat \<Rightarrow> bool" where
  "exceeded e k = (d_clock e k - d_clock e 0 > threshold)"

text \<open>\<^verbatim>\<open>strncmp(a, b, n)\<close> is non-zero, for strings without a NUL inside.\<close>

definition strncmp_ne :: "string \<Rightarrow> string \<Rightarrow> nat \<Rightarrow> bool" where
  "strncmp_ne a b n = (take n a \<noteq> take n b)"

text \<open>
  The result of a pass: what was done, the flag \<^verbatim>\<open>timeout\<close>, and the number of
  elapsed-time checks made.
\<close>

record rw_result =
  rw_trace :: "rw_event list"
  rw_timeout :: bool
  rw_checks :: nat

definition rw_done :: "rw_event list \<Rightarrow> bool \<Rightarrow> nat \<Rightarrow> rw_result" where
  "rw_done tr timeout k = \<lparr> rw_trace = tr, rw_timeout = timeout, rw_checks = k \<rparr>"

text \<open>The places of the pass, in the order of the source.\<close>

datatype rw_label =
  L_open | L_fstat | L_seek | L_poll | L_select | L_getfd | L_getfl | L_getsig | L_mmap
  | L_reopen | L_rdwr

fun label_rank :: "rw_label \<Rightarrow> nat" where
  "label_rank L_open = 10"
| "label_rank L_fstat = 9"
| "label_rank L_seek = 8"
| "label_rank L_poll = 7"
| "label_rank L_select = 6"
| "label_rank L_getfd = 5"
| "label_rank L_getfl = 4"
| "label_rank L_getsig = 3"
| "label_rank L_mmap = 2"
| "label_rank L_reopen = 1"
| "label_rank L_rdwr = 0"

definition mmap_events :: "rw_env \<Rightarrow> prot \<Rightarrow> map_flag \<Rightarrow> rw_event list" where
  "mmap_events e p f = R_mmap p f # (if d_mmap_ok e p f then [R_munmap] else [])"

definition dev_func_events :: "dev_cfg \<Rightarrow> string \<Rightarrow> rw_event list" where
  "dev_func_events cfg path =
     concat (map (\<lambda>i. if \<not> strncmp_ne path (c_dev_funcs cfg ! i) (length (c_dev_funcs cfg ! i))
                       then [R_dev_func i] else [])
               [0..<length (c_dev_funcs cfg)])"

text \<open>
  The body of the loop of \<^verbatim>\<open>stress_dev_rw\<close> from a place on, with \<open>k\<close> the number of
  clock readings taken after \<^verbatim>\<open>t_start\<close> and \<open>tr\<close> what was done so far. It ends at the
  label \<^verbatim>\<open>next\<close>. Every check of the elapsed time that finds the threshold exceeded
  sets \<^verbatim>\<open>timeout\<close>, closes the descriptor if it is still open, and goes to \<^verbatim>\<open>next\<close>.
\<close>

function rw_from :: "dev_cfg \<Rightarrow> rw_env \<Rightarrow> string \<Rightarrow> rw_label \<Rightarrow> nat \<Rightarrow> rw_event list \<Rightarrow> rw_result" where
  "rw_from cfg e path L_open k tr =
     (case d_open1 e of
        Some err \<Rightarrow>
          (if err = EINTR then rw_done (tr @ [R_open_rdonly False]) False k
           else rw_from cfg e path L_rdwr k (tr @ [R_open_rdonly False]))
      | None \<Rightarrow>
          (if exceeded e (Suc k)
           then rw_done (tr @ [R_open_rdonly True, R_time_now, R_close]) True (Suc k)
           else rw_from cfg e path L_fstat (Suc k) (tr @ [R_open_rdonly True, R_time_now])))"
| "rw_from cfg e path L_fstat k tr =
     (if d_fstat_ok e \<and> \<not> (d_isblk e \<or> d_ischr e)
      then rw_done (tr @ [R_fstat, R_close]) False k
      else
        rw_from cfg e path L_seek k
          (tr @ [R_fstat] @ (if d_fstat_ok e then [] else [R_pr_fail])
           @ (if d_isblk e
              then [R_dev_blk, R_dev_scsi_blk] @ (if c_hdreg cfg then [R_dev_hd_linux] else [])
              else [])
           @ (if c_termios cfg \<and> d_ischr e \<and> strncmp_ne ''/dev/vsock'' path 9
                 \<and> strncmp_ne ''/dev/dri'' path 7
              then R_ioctl_tcgets # (if d_tcgets_ok e then [R_dev_tty] else [])
              else [])))"
| "rw_from cfg e path L_seek k tr =
     (let tr' = tr @ [R_lseek SEEK_SET, R_uint64_put, R_lseek SEEK_CUR, R_uint64_put,
                      R_lseek SEEK_END, R_uint64_put, R_time_now]
      in if exceeded e (Suc k) then rw_done (tr' @ [R_close]) True (Suc k)
         else rw_from cfg e path L_poll (Suc k) tr')"
| "rw_from cfg e path L_poll k tr =
     (let tr' = tr @ [R_poll, R_time_now]
      in if exceeded e (Suc k) then rw_done (tr' @ [R_close]) True (Suc k)
         else rw_from cfg e path L_select (Suc k) tr')"
| "rw_from cfg e path L_select k tr =
     (if c_not_netbsd cfg then
        (let tr' = tr @ [R_select, R_time_now]
         in if exceeded e (Suc k) then rw_done (tr' @ [R_close]) True (Suc k)
            else rw_from cfg e path L_getfd (Suc k) tr')
      else rw_from cfg e path L_getfd k tr)"
| "rw_from cfg e path L_getfd k tr =
     (if c_f_getfd cfg then
        (let tr' = tr @ [R_fcntl_getfd, R_time_now]
         in if exceeded e (Suc k) then rw_done (tr' @ [R_close]) True (Suc k)
            else rw_from cfg e path L_getfl (Suc k) tr')
      else rw_from cfg e path L_getfl k tr)"
| "rw_from cfg e path L_getfl k tr =
     (if c_f_getfl cfg then
        (let tr' = tr @ [R_fcntl_getfl, R_time_now]
         in if exceeded e (Suc k) then rw_done (tr' @ [R_close]) True (Suc k)
            else rw_from cfg e path L_getsig (Suc k) tr')
      else rw_from cfg e path L_getsig k tr)"
| "rw_from cfg e path L_getsig k tr =
     (if c_f_getsig cfg then
        (let tr' = tr @ [R_fcntl_getsig, R_time_now]
         in if exceeded e (Suc k) then rw_done (tr' @ [R_close]) True (Suc k)
            else rw_from cfg e path L_mmap (Suc k) tr')
      else rw_from cfg e path L_mmap k tr)"
| "rw_from cfg e path L_mmap k tr =
     (let tr' = tr @ mmap_events e PROT_READ MAP_PRIVATE @ mmap_events e PROT_READ MAP_SHARED
                @ [R_close, R_time_now]
      in if exceeded e (Suc k) then rw_done tr' True (Suc k)
         else rw_from cfg e path L_reopen (Suc k) tr')"
| "rw_from cfg e path L_reopen k tr =
     (case d_open2 e of
        Some err \<Rightarrow>
          (if err = EINTR then rw_done (tr @ [R_open_rdonly False]) False k
           else rw_from cfg e path L_rdwr k (tr @ [R_open_rdonly False]))
      | None \<Rightarrow>
          (let tr' = tr @ [R_open_rdonly True]
                     @ mmap_events e PROT_WRITE MAP_PRIVATE @ mmap_events e PROT_WRITE MAP_SHARED
                     @ [R_fsync] @ dev_func_events cfg path @ [R_close, R_time_now]
           in if exceeded e (Suc k) then rw_done tr' True (Suc k)
              else rw_from cfg e path L_rdwr (Suc k) tr'))"
| "rw_from cfg e path L_rdwr k tr =
     rw_done (tr @ R_open_rdwr (d_open3_ok e) # (if d_open3_ok e then [R_close] else [])) False k"
  by pat_completeness auto
termination
  by (relation "measure (\<lambda>(cfg, e, path, l, k, tr). label_rank l)") auto

text \<open>One pass: \<^verbatim>\<open>t_start\<close> is read, then the device is opened.\<close>

definition rw_pass :: "dev_cfg \<Rightarrow> rw_env \<Rightarrow> string \<Rightarrow> rw_result" where
  "rw_pass cfg e path = rw_from cfg e path L_open 0 [R_time_now]"



subsection \<open>What the deadline guard promises, and sample devices\<close>

text \<open>The trace stops at a check: nothing, or only the \<^verbatim>\<open>close\<close>, comes after the last reading of the clock.\<close>

definition ends_at_check :: "rw_event list \<Rightarrow> bool" where
  "ends_at_check tr =
     (case rev tr of
        R_time_now # _ \<Rightarrow> True
      | R_close # R_time_now # _ \<Rightarrow> True
      | _ \<Rightarrow> False)"


text \<open>A Linux build, and a character device on which every call succeeds and every stage takes 0.1 s.\<close>

definition cfg_linux :: dev_cfg where
  "cfg_linux =
     \<lparr> c_termios = True, c_hdreg = True, c_not_netbsd = True, c_f_getfd = True,
       c_f_getfl = True, c_f_getsig = True,
       c_dev_funcs = [''/dev/random'', ''/dev/null'', ''/dev/ptp''] \<rparr>"

definition slow_device :: "real \<Rightarrow> rw_env" where
  "slow_device t0 =
     \<lparr> d_clock = (\<lambda>k. t0 + real k / 10), d_open1 = None, d_fstat_ok = True, d_isblk = False,
       d_ischr = True, d_tcgets_ok = False, d_mmap_ok = (\<lambda>p f. False), d_open2 = None,
       d_open3_ok = True \<rparr>"


section \<open>stress-dev.c: walking the device directory\<close>

subsection \<open>The limit on devices of the same name\<close>










subsection \<open>The directory walk\<close>

























section \<open>Properties of the atomic shims\<close>

lemma uint_NOT_mod: "uint (NOT w) = NOT (uint w) mod 2 ^ LENGTH('a)"
  for w :: "'a::len word"
  by (simp add: unsigned_not_eq take_bit_eq_mod)

text \<open>
  C10. The workaround compiled for GCC 11 (and for compilers other than GCC) is
  equivalent to the builtin it replaces. For every word size, every content \<open>old\<close> of
  the variable and every operand \<open>val\<close>, with the builtins behaving as documented, the
  atomic AND followed by the atomic XOR with \<^verbatim>\<open>~0\<close> leaves \<open>NOT (old AND val)\<close> in the
  variable, which read as an unsigned number is \<open>NOT (old AND val)\<close> modulo \<open>2 ^ w\<close>; the
  single NAND builtin leaves the same content. This holds for the fetch-then-operate and
  for the operate-then-fetch shim, and so a whole batch leaves the same shared variable
  under either choice. The statement is about the content after the shim has run with no
  other process writing between its two steps.
\<close>

theorem nand_workaround_equiv:
  fixes old val :: "'a::len word"
  shows "SHIM_ATOMIC_FETCH_NAND False gcc_atomics old val = NOT (old AND val)
       \<and> SHIM_ATOMIC_NAND_FETCH False gcc_atomics old val = NOT (old AND val)
       \<and> uint (SHIM_ATOMIC_FETCH_NAND False gcc_atomics old val)
            = NOT (uint old AND uint val) mod 2 ^ LENGTH('a)
       \<and> uint (SHIM_ATOMIC_NAND_FETCH False gcc_atomics old val)
            = NOT (uint old AND uint val) mod 2 ^ LENGTH('a)
       \<and> SHIM_ATOMIC_FETCH_NAND False gcc_atomics old val
            = SHIM_ATOMIC_FETCH_NAND True gcc_atomics old val
       \<and> SHIM_ATOMIC_NAND_FETCH False gcc_atomics old val
            = SHIM_ATOMIC_NAND_FETCH True gcc_atomics old val
       \<and> run_shared_ops False gcc_atomics (old, val) = run_shared_ops True gcc_atomics (old, val)"
proof -
  have f: "SHIM_ATOMIC_FETCH_NAND False gcc_atomics old val = NOT (old AND val)"
    by (simp add: SHIM_ATOMIC_FETCH_NAND_def gcc_atomics_def)
  have n: "SHIM_ATOMIC_NAND_FETCH False gcc_atomics old val = NOT (old AND val)"
    by (simp add: SHIM_ATOMIC_NAND_FETCH_def gcc_atomics_def)
  have fd: "SHIM_ATOMIC_FETCH_NAND True gcc_atomics old val = NOT (old AND val)"
    by (simp add: SHIM_ATOMIC_FETCH_NAND_def gcc_atomics_def)
  have nd: "SHIM_ATOMIC_NAND_FETCH True gcc_atomics old val = NOT (old AND val)"
    by (simp add: SHIM_ATOMIC_NAND_FETCH_def gcc_atomics_def)
  have u: "uint (NOT (old AND val)) = NOT (uint old AND uint val) mod 2 ^ LENGTH('a)"
    by (subst uint_NOT_mod) (simp only: uint_and)
  have r: "run_shared_ops False gcc_atomics (old, val) = run_shared_ops True gcc_atomics (old, val)"
    by (simp add: run_shared_ops_def shared_ops_def SHIM_ATOMIC_FETCH_NAND_def
        SHIM_ATOMIC_NAND_FETCH_def gcc_atomics_def st_op_def st_store_def st_load_def
        st_clear_def)
  show ?thesis
    using f n fd nd u r by simp
qed

theorem nand_workaround_equiv_witness:
  "uint (SHIM_ATOMIC_FETCH_NAND False gcc_atomics (0xF0 :: 8 word) 0x3C) = 0xCF
   \<and> SHIM_ATOMIC_NAND_FETCH False gcc_atomics (0xF0 :: 8 word) 0x3C
        = SHIM_ATOMIC_NAND_FETCH True gcc_atomics 0xF0 0x3C"
proof -
  have "uint (SHIM_ATOMIC_FETCH_NAND False gcc_atomics (0xF0 :: 8 word) 0x3C)
          = NOT (uint (0xF0 :: 8 word) AND uint (0x3C :: 8 word)) mod 2 ^ LENGTH(8)"
    using nand_workaround_equiv [of "0xF0 :: 8 word" "0x3C"] by blast
  moreover have "SHIM_ATOMIC_NAND_FETCH False gcc_atomics (0xF0 :: 8 word) 0x3C
        = SHIM_ATOMIC_NAND_FETCH True gcc_atomics 0xF0 0x3C"
    using nand_workaround_equiv [of "0xF0 :: 8 word" "0x3C"] by blast
  ultimately show ?thesis by simp
qed

section \<open>Properties of the atomic stressor\<close>

subsection \<open>What every call step preserves, the whole exercise preserves\<close>

lemma rounds_loop_rel:
  assumes refl: "\<And>s. R s s"
    and trans: "\<And>a b c. R a b \<Longrightarrow> R b c \<Longrightarrow> R a c"
    and step: "\<And>s e es. w_calls s = e # es \<Longrightarrow> R s (call_step cfg func e p i s)"
  shows "R s (snd (rounds_loop cfg func p i n s))"
proof (induction n arbitrary: s)
  case 0
  show ?case by (simp add: refl)
next
  case (Suc n)
  show ?case
  proof (cases "w_calls s")
    case Nil
    then show ?thesis by (simp add: refl)
  next
    case (Cons e es)
    let ?s' = "call_step cfg func e p i s"
    have s': "?s' = s\<lparr> w_region := snd (call_func cfg func e p i (w_region s)), w_calls := es,
        w_log := w_log s @ [(i, fst (call_func cfg func e p i (w_region s)))] \<rparr>"
      by (simp add: call_step_def Cons)
    have a: "R s ?s'" by (rule step [OF Cons])
    have b: "R ?s' (snd (rounds_loop cfg func p i n ?s'))" by (rule Suc.IH)
    show ?thesis
      using a trans [OF a b] by (simp add: Cons Let_def s' [symmetric])
  qed
qed

lemma funcs_loop_rel:
  assumes refl: "\<And>s. R s s"
    and trans: "\<And>a b c. R a b \<Longrightarrow> R b c \<Longrightarrow> R a c"
    and step: "\<And>s e es k. k < length fs \<Longrightarrow> w_calls s = e # es \<Longrightarrow>
                 R s (call_step cfg (fst (fs ! k)) e p (i + k) s)"
  shows "R s (snd (funcs_loop cfg fs p i s))"
  using step
proof (induction fs arbitrary: i s)
  case Nil
  show ?case by (simp add: refl)
next
  case (Cons f fs)
  obtain out s' where r: "rounds_loop cfg (fst f) p i rounds s = (out, s')"
    by (cases "rounds_loop cfg (fst f) p i rounds s")
  have hd: "\<And>s e es. w_calls s = e # es \<Longrightarrow> R s (call_step cfg (fst f) e p i s)"
    using Cons.prems [of 0] by simp
  have tl: "\<And>s e es k. k < length fs \<Longrightarrow> w_calls s = e # es \<Longrightarrow>
                 R s (call_step cfg (fst (fs ! k)) e p (Suc i + k) s)"
    using Cons.prems [of "Suc _"] by simp
  have a: "R s s'"
    using rounds_loop_rel [of R cfg "fst f" p i s rounds, OF refl trans hd] r by simp
  show ?case
  proof (cases out)
    case None
    then show ?thesis using r trans [OF a Cons.IH [OF tl]] by simp
  next
    case (Some o')
    then show ?thesis using r a by simp
  qed
qed

lemma exercise_rel:
  assumes refl: "\<And>s. R s s"
    and trans: "\<And>a b c. R a b \<Longrightarrow> R b c \<Longrightarrow> R a c"
    and step: "\<And>s e es k. k < length atomic_func_info \<Longrightarrow> w_calls s = e # es \<Longrightarrow>
                 R s (call_step cfg (fst (atomic_func_info ! k)) e p k s)"
    and bogo: "\<And>s. R s (s\<lparr> w_bogo := Suc (w_bogo s) \<rparr>)"
  shows "R s (snd (stress_atomic_exercise cfg conts p s))"
proof (induction conts arbitrary: s)
  case Nil
  obtain out s' where r: "funcs_loop cfg atomic_func_info p 0 s = (out, s')"
    by (cases "funcs_loop cfg atomic_func_info p 0 s")
  have a: "R s s'"
    using funcs_loop_rel [of R atomic_func_info cfg p 0 s, OF refl trans] step r by simp
  show ?case using r a trans [OF a bogo [of s']] by (cases out) simp_all
next
  case (Cons c cs)
  obtain out s' where r: "funcs_loop cfg atomic_func_info p 0 s = (out, s')"
    by (cases "funcs_loop cfg atomic_func_info p 0 s")
  have a: "R s s'"
    using funcs_loop_rel [of R atomic_func_info cfg p 0 s, OF refl trans] step r by simp
  let ?s'' = "s'\<lparr> w_bogo := Suc (w_bogo s') \<rparr>"
  have b: "R s ?s''" by (rule trans [OF a bogo])
  have c: "R s (snd (stress_atomic_exercise cfg cs p ?s''))"
    by (rule trans [OF b Cons.IH])
  show ?case using r a b c by (cases out) (simp_all add: Let_def)
qed

lemma call_func_frame: "q \<noteq> p \<Longrightarrow> snd (call_func cfg func e p i region) ! q = region ! q"
  by (simp add: call_func_def Let_def)


lemma exercise_frame:
  assumes "q \<noteq> p"
  shows "w_region (snd (stress_atomic_exercise cfg conts p s)) ! q = w_region s ! q"
  by (rule exercise_rel [where R = "\<lambda>a b. w_region b ! q = w_region a ! q"])
     (simp_all add: call_step_def call_func_frame [OF assms])


subsection \<open>The status of a call, and what the log records\<close>


lemma DO_ATOMIC_OPS_duration:
  "b_duration (DO_ATOMIC_OPS direct a mwc junk n1 n2 var d c rc) = d + (n2 - n1)"
  by (simp add: DO_ATOMIC_OPS_def Let_def)

lemma DO_ATOMIC_OPS_count:
  "b_count (DO_ATOMIC_OPS direct a mwc junk n1 n2 var d c rc) = c + 64"
  by (simp add: DO_ATOMIC_OPS_def Let_def)

lemma func_cases:
  assumes "k < length atomic_func_info"
  obtains "k = 0" | "k = 1" | "k = 2" | "k = 3"
  using assms by (auto simp: atomic_func_info_def less_Suc_eq numeral_eq_Suc)











subsection \<open>A script on which every check passes\<close>





subsection \<open>Metrics only grow\<close>

lemma func_effect:
  assumes "k < length atomic_func_info"
  shows "snd (fst (atomic_func_info ! k) cfg e d c) =
           (if k = 0 \<and> sizeof_long cfg \<noteq> 8 then (d, c) else (d + (c_now2 e - c_now1 e), c + 64))"
  using assms
  by (rule func_cases)
     (simp_all add: atomic_func_info_def stress_atomic_uint64_def
        stress_atomic_uint32_def stress_atomic_uint16_def stress_atomic_uint8_def
        batch_result_def DO_ATOMIC_OPS_duration DO_ATOMIC_OPS_count Let_def)

lemma nested_update_other:
  assumes "\<not> (q = p \<and> p < length region \<and> j = i \<and> i < length (metrics (region ! p)))"
  shows "metrics ((region[p := (region ! p)\<lparr> metrics := (metrics (region ! p))[i := m] \<rparr>]) ! q) ! j
           = metrics (region ! q) ! j"
proof (cases "p < length region")
  case False
  then show ?thesis by (simp add: list_update_beyond not_less)
next
  case p: True
  show ?thesis
  proof (cases "q = p")
    case False
    then show ?thesis by simp
  next
    case q: True
    show ?thesis
    proof (cases "i < length (metrics (region ! p))")
      case False
      then show ?thesis using p q by (simp add: list_update_beyond not_less)
    next
      case True
      then have "j \<noteq> i" using assms p q by simp
      then show ?thesis using p q by simp
    qed
  qed
qed

lemma nested_update_same:
  assumes "p < length region" "i < length (metrics (region ! p))"
  shows "metrics ((region[p := (region ! p)\<lparr> metrics := (metrics (region ! p))[i := m] \<rparr>]) ! p) ! i = m"
  using assms by simp

lemma call_func_grows:
  assumes "k < length atomic_func_info" "clock_ok e"
  shows "grows region (snd (call_func cfg (fst (atomic_func_info ! k)) e p i region))"
  unfolding grows_def
proof (intro allI)
  fix q j
  let ?f = "fst (atomic_func_info ! k)"
  let ?m = "metrics (region ! p) ! i"
  let ?r = "?f cfg e (duration ?m) (count ?m)"
  let ?m' = "?m\<lparr> duration := fst (snd ?r), count := snd (snd ?r) \<rparr>"
  have cf: "snd (call_func cfg ?f e p i region)
              = region[p := (region ! p)\<lparr> metrics := (metrics (region ! p))[i := ?m'] \<rparr>]"
    by (simp add: call_func_def Let_def)
  have fe: "snd ?r =
      (if k = 0 \<and> sizeof_long cfg \<noteq> 8 then (duration ?m, count ?m)
       else (duration ?m + (c_now2 e - c_now1 e), count ?m + 64))"
    by (rule func_effect [OF assms(1)])
  have m': "duration ?m \<le> duration ?m' \<and> count ?m \<le> count ?m'"
    using fe assms(2) by (simp add: clock_ok_def split: if_splits)
  show "duration (metrics (region ! q) ! j) \<le> duration (metrics (snd (call_func cfg ?f e p i region) ! q) ! j)
      \<and> count (metrics (region ! q) ! j) \<le> count (metrics (snd (call_func cfg ?f e p i region) ! q) ! j)"
  proof (cases "q = p \<and> p < length region \<and> j = i \<and> i < length (metrics (region ! p))")
    case True
    then have "metrics (snd (call_func cfg ?f e p i region) ! q) ! j = ?m'"
      unfolding cf using nested_update_same [of p region i ?m'] by simp
    then show ?thesis using m' True by simp
  next
    case False
    have "metrics (snd (call_func cfg ?f e p i region) ! q) ! j = metrics (region ! q) ! j"
      unfolding cf by (rule nested_update_other [OF False])
    then show ?thesis by simp
  qed
qed

lemma exercise_grows:
  assumes "list_all clock_ok (w_calls s)"
  shows "grows (w_region s) (w_region (snd (stress_atomic_exercise cfg conts p s)))"
proof -
  let ?R = "\<lambda>a b. list_all clock_ok (w_calls a) \<longrightarrow>
                   list_all clock_ok (w_calls b) \<and> grows (w_region a) (w_region b)"
  have "?R s (snd (stress_atomic_exercise cfg conts p s))"
  proof (rule exercise_rel [where R = ?R])
    show "?R s s" for s by (simp add: grows_def)
    show "?R a b \<Longrightarrow> ?R b c \<Longrightarrow> ?R a c" for a b c
      unfolding grows_def by (meson order_trans)
    show "k < length atomic_func_info \<Longrightarrow> w_calls s = e # es \<Longrightarrow>
        ?R s (call_step cfg (fst (atomic_func_info ! k)) e p k s)" for s e es k
      using call_func_grows [of k e "w_region s" cfg p k] by (simp add: call_step_def)
    show "?R s (s\<lparr> w_bogo := Suc (w_bogo s) \<rparr>)" for s
      by (simp add: grows_def)
  qed
  then show ?thesis using assms by simp
qed

subsection \<open>Sample calls\<close>









subsection \<open>Aggregation\<close>





lemma funcs4: "STRESS_ATOMIC_MAX_FUNCS = 4"
  by (simp add: STRESS_ATOMIC_MAX_FUNCS_def atomic_func_info_def)

lemma procs4: "n_atomic_procs = 4"
  by (simp add: n_atomic_procs_def STRESS_ATOMIC_MAX_PROCS_def)

lemma fold_aggregate:
  "fold (aggregate_step region) [0..<n] tr =
     tr @ map (\<lambda>j. A_metrics_set j (snd (atomic_func_info ! j) @ '' atomic ops per sec'')
                  (rate_of (sum_slots region j))) [0..<n]"
  by (induction n) (simp_all add: aggregate_step_def)




subsection \<open>The run as a whole\<close>

lemma procs3: "STRESS_ATOMIC_MAX_PROCS = 3"
  by (simp add: STRESS_ATOMIC_MAX_PROCS_def)

lemma reap_step_status:
  "fst (reap_step env region i st) = EXIT_FAILURE \<or> fst (reap_step env region i st) = fst st"
  by (simp add: reap_step_def split: option.splits wait_status.splits)

lemma fold_reap_status:
  "fst (fold (reap_step env region) xs st) = EXIT_FAILURE
   \<or> fst (fold (reap_step env region) xs st) = fst st"
proof (induction xs arbitrary: st)
  case Nil
  then show ?case by simp
next
  case (Cons x xs)
  show ?case
    using Cons.IH [of "reap_step env region x st"] reap_step_status [of env region x st]
    by auto
qed


lemma fold_fork_trace:
  "snd (fold (fork_step cfg env) [0..<n] st) = snd st @ map (\<lambda>i. A_fork i (e_fork env i)) [0..<n]"
  by (induction n) (simp_all add: fork_step_def Let_def)

lemma reap_step_no_skip:
  "A_pr_inf_skip \<notin> set (snd st) \<Longrightarrow> A_pr_inf_skip \<notin> set (snd (reap_step env region i st))"
  by (simp add: reap_step_def split: option.splits wait_status.splits)

lemma fold_reap_no_skip:
  "A_pr_inf_skip \<notin> set (snd st) \<Longrightarrow>
   A_pr_inf_skip \<notin> set (snd (fold (reap_step env region) xs st))"
  by (induction xs arbitrary: st) (simp_all add: reap_step_no_skip)

text \<open>
  C7. Failure to map the shared region is a clean skip. When \<^verbatim>\<open>mmap\<close> returns
  \<^verbatim>\<open>MAP_FAILED\<close>, \<^verbatim>\<open>stress_atomic\<close> returns \<^verbatim>\<open>EXIT_NO_RESOURCE\<close> at once: the only
  thing it does is print the skip message, no worker is forked, no exercise runs and no
  metric exists to be written. When the mapping succeeds the run never returns the
  no-resource status and never prints the skip message.
\<close>

theorem mmap_failure_is_clean_skip:
  "(\<not> e_mmap_ok env \<longrightarrow>
      stress_atomic cfg env
        = \<lparr> r_status = Some EXIT_NO_RESOURCE, r_region = [], r_trace = [A_pr_inf_skip] \<rparr>
      \<and> (\<forall>i p. A_fork i p \<notin> set (r_trace (stress_atomic cfg env)))
      \<and> (\<forall>p. A_exercise p \<notin> set (r_trace (stress_atomic cfg env))))
   \<and> (e_mmap_ok env \<longrightarrow>
      r_status (stress_atomic cfg env) \<noteq> Some EXIT_NO_RESOURCE
      \<and> A_pr_inf_skip \<notin> set (r_trace (stress_atomic cfg env)))"
proof (cases "e_mmap_ok env")
  case False
  then show ?thesis by (simp add: stress_atomic_def)
next
  case True
  obtain out s where ex: "parent_exercise cfg env = (out, s)"
    by (cases "parent_exercise cfg env")
  show ?thesis
  proof (cases out)
    case Interrupted
    then show ?thesis
      using True ex by (auto simp: stress_atomic_def Let_def forked_def fold_fork_trace)
  next
    case (Returned r)
    let ?rc = "if r < 0 then EXIT_FAILURE else EXIT_SUCCESS"
    let ?tr1 = "snd (forked cfg env) @ [A_exercise (n_atomic_procs - 1)]"
    let ?st2 = "fold (reap_step env (w_region s)) [0..<STRESS_ATOMIC_MAX_PROCS] (?rc, ?tr1)"
    have st: "fst ?st2 \<noteq> EXIT_NO_RESOURCE"
      using fold_reap_status [of env "w_region s" "[0..<STRESS_ATOMIC_MAX_PROCS]" "(?rc, ?tr1)"]
      by auto
    have tr1: "A_pr_inf_skip \<notin> set ?tr1"
      by (auto simp: forked_def fold_fork_trace)
    have tr2: "A_pr_inf_skip \<notin> set (snd ?st2)"
      by (rule fold_reap_no_skip) (use tr1 in simp)
    show ?thesis
      using True ex Returned st tr2
      by (auto simp: stress_atomic_def Let_def fold_aggregate)
  qed
qed

theorem mmap_failure_is_clean_skip_witness:
  "\<not> e_mmap_ok env_no_mmap
   \<and> stress_atomic cfg_lp64 env_no_mmap
       = \<lparr> r_status = Some EXIT_NO_RESOURCE, r_region = [], r_trace = [A_pr_inf_skip] \<rparr>
   \<and> e_mmap_ok env_parent_fails
   \<and> r_status (stress_atomic cfg_lp64 env_parent_fails) \<noteq> Some EXIT_NO_RESOURCE"
proof -
  have a: "\<not> e_mmap_ok env_no_mmap" by (simp add: env_no_mmap_def)
  have b: "e_mmap_ok env_parent_fails" by (simp add: env_parent_fails_def)
  show ?thesis
    using a b mmap_failure_is_clean_skip [of env_no_mmap cfg_lp64]
      mmap_failure_is_clean_skip [of env_parent_fails cfg_lp64]
    by blast
qed


subsection \<open>A child reaped with a failure status\<close>












subsection \<open>Workers and their slots\<close>

lemma worker_slots_distinct:
  assumes "is_worker w" "is_worker w'" "w \<noteq> w'"
  shows "worker_slot w \<noteq> worker_slot w'"
  using assms by (cases w; cases w') (auto simp: procs4 procs3)

text \<open>
  C5. Slot isolation. In \<^verbatim>\<open>stress_atomic\<close> child \<open>i\<close> (\<open>i < 3\<close>) exercises the slot
  \<^verbatim>\<open>atomic_info[i]\<close> and the parent the slot \<^verbatim>\<open>atomic_info[3]\<close>, so two different
  workers have different slots; and whatever a worker's exercise meets, it leaves every
  slot other than its own as it was: the durations and counts of all kinds, and the pid.
  This holds for the exercise on any slot pointer, for the child's branch after
  \<^verbatim>\<open>fork\<close> and for the parent's own exercise.
\<close>

theorem slot_isolation:
  "(is_worker w \<and> is_worker w' \<and> w \<noteq> w' \<longrightarrow>
      worker_slot w \<noteq> worker_slot w'
      \<and> w_region (snd (stress_atomic_exercise cfg conts (worker_slot w) s)) ! worker_slot w'
          = w_region s ! worker_slot w')
   \<and> (q \<noteq> i \<longrightarrow> snd (atomic_child cfg env i region) ! q = region ! q)
   \<and> (q \<noteq> n_atomic_procs - 1 \<longrightarrow>
        w_region (snd (parent_exercise cfg env)) ! q = fst (forked cfg env) ! q)"
proof (intro conjI impI)
  assume a: "is_worker w \<and> is_worker w' \<and> w \<noteq> w'"
  then show d: "worker_slot w \<noteq> worker_slot w'"
    using worker_slots_distinct by blast
  show "w_region (snd (stress_atomic_exercise cfg conts (worker_slot w) s)) ! worker_slot w'
          = w_region s ! worker_slot w'"
    by (rule exercise_frame) (use d in simp)
next
  assume q: "q \<noteq> i"
  let ?ex = "stress_atomic_exercise cfg (e_child_continue env i) i
               (new_worker region (e_child_calls env i))"
  have "w_region (snd ?ex) ! q = region ! q"
    using exercise_frame [OF q, of cfg "e_child_continue env i" "new_worker region (e_child_calls env i)"]
    by (simp add: new_worker_def)
  then show "snd (atomic_child cfg env i region) ! q = region ! q"
    by (cases ?ex) (auto simp: atomic_child_def split: outcome.splits)
next
  assume q: "q \<noteq> n_atomic_procs - 1"
  show "w_region (snd (parent_exercise cfg env)) ! q = fst (forked cfg env) ! q"
    unfolding parent_exercise_def
    using exercise_frame [OF q, of cfg "e_parent_continue env"
        "new_worker (fst (forked cfg env)) (e_parent_calls env)"]
    by (simp add: new_worker_def)
qed

theorem slot_isolation_witness:
  "is_worker (Child 1) \<and> is_worker Parent \<and> Child 1 \<noteq> Parent
   \<and> worker_slot (Child 1) \<noteq> worker_slot Parent
   \<and> w_region (snd (stress_atomic_exercise cfg_lp64 [False] (worker_slot (Child 1))
         (new_worker sample_region [good_call, bad_call]))) ! worker_slot Parent
       = sample_region ! worker_slot Parent"
proof -
  have a: "is_worker (Child 1) \<and> is_worker Parent \<and> Child 1 \<noteq> Parent"
    by (simp add: procs3)
  show ?thesis
    using a slot_isolation [of "Child 1" Parent cfg_lp64 "[False]"
        "new_worker sample_region [good_call, bad_call]"]
    by (simp add: new_worker_def)
qed





subsection \<open>Monotone metrics\<close>

text \<open>
  C8, as stated, fails where \<^verbatim>\<open>long\<close> is not 64 bits wide: there
  \<^verbatim>\<open>stress_atomic_uint64\<close> runs no batch, and an invocation adds nothing to the count.
\<close>

theorem count_not_always_64_counterexample:
  "stress_atomic_uint64 cfg_ilp32 good_call 0 0 = (0, 0, 0)
   \<and> snd (snd (stress_atomic_uint64 cfg_ilp32 good_call 0 0)) \<noteq> 0 + 64"
  by (simp add: stress_atomic_uint64_def cfg_ilp32_def)

text \<open>
  C8, amended. Every invocation of an exercise function that runs a batch (the 32-, 16-
  and 8-bit functions always, the 64-bit function where \<^verbatim>\<open>sizeof(long int)\<close> is 8) adds
  the difference of its two clock readings to the duration, which is not negative when
  the clock does not run backwards, and adds exactly 64 to the count, whether or not
  the check passes; where \<^verbatim>\<open>long\<close> is not 64 bits wide the 64-bit function leaves both
  fields as they were. Nothing in the exercise loop subtracts from or resets a field:
  over a whole exercise no duration and no count of any slot decreases, and only the
  slot of the worker that runs the exercise changes.
\<close>

theorem metrics_monotone:
  "(k < STRESS_ATOMIC_MAX_FUNCS \<longrightarrow>
      snd (fst (atomic_func_info ! k) cfg e d c)
        = (if k = 0 \<and> sizeof_long cfg \<noteq> 8 then (d, c)
           else (d + (c_now2 e - c_now1 e), c + 64)))
   \<and> (k < STRESS_ATOMIC_MAX_FUNCS \<and> clock_ok e \<longrightarrow>
        d \<le> fst (snd (fst (atomic_func_info ! k) cfg e d c))
        \<and> c \<le> snd (snd (fst (atomic_func_info ! k) cfg e d c)))
   \<and> (list_all clock_ok (w_calls s) \<longrightarrow>
        grows (w_region s) (w_region (snd (stress_atomic_exercise cfg conts p s))))
   \<and> (q \<noteq> p \<longrightarrow>
        w_region (snd (stress_atomic_exercise cfg conts p s)) ! q = w_region s ! q)"
proof (intro conjI impI)
  assume k: "k < STRESS_ATOMIC_MAX_FUNCS"
  then show "snd (fst (atomic_func_info ! k) cfg e d c)
        = (if k = 0 \<and> sizeof_long cfg \<noteq> 8 then (d, c)
           else (d + (c_now2 e - c_now1 e), c + 64))"
    by (simp add: func_effect STRESS_ATOMIC_MAX_FUNCS_def)
next
  assume a: "k < STRESS_ATOMIC_MAX_FUNCS \<and> clock_ok e"
  then have "snd (fst (atomic_func_info ! k) cfg e d c)
        = (if k = 0 \<and> sizeof_long cfg \<noteq> 8 then (d, c)
           else (d + (c_now2 e - c_now1 e), c + 64))"
    by (simp add: func_effect STRESS_ATOMIC_MAX_FUNCS_def)
  then show "d \<le> fst (snd (fst (atomic_func_info ! k) cfg e d c))"
    and "c \<le> snd (snd (fst (atomic_func_info ! k) cfg e d c))"
    using a by (simp_all add: clock_ok_def split: if_splits)
next
  assume "list_all clock_ok (w_calls s)"
  then show "grows (w_region s) (w_region (snd (stress_atomic_exercise cfg conts p s)))"
    by (rule exercise_grows)
next
  assume "q \<noteq> p"
  then show "w_region (snd (stress_atomic_exercise cfg conts p s)) ! q = w_region s ! q"
    by (rule exercise_frame)
qed

theorem metrics_monotone_witness:
  "(1::nat) < STRESS_ATOMIC_MAX_FUNCS \<and> clock_ok good_call
   \<and> snd (stress_atomic_uint32 cfg_lp64 good_call 2 10) = (2.5, 74)
   \<and> list_all clock_ok [good_call, bad_call]
   \<and> grows sample_region (w_region (snd (stress_atomic_exercise cfg_lp64 [False] 1
                                            (new_worker sample_region [good_call, bad_call]))))
   \<and> w_region (snd (stress_atomic_exercise cfg_lp64 [False] 1
                       (new_worker sample_region [good_call, bad_call]))) ! 0 = sample_region ! 0"
proof -
  have k: "(1::nat) < STRESS_ATOMIC_MAX_FUNCS" by (simp add: funcs4)
  have ck: "clock_ok good_call" by (simp add: clock_ok_def good_call_def)
  have cl: "list_all clock_ok [good_call, bad_call]"
    by (simp add: clock_ok_def good_call_def bad_call_def)
  note t = metrics_monotone [where k = 1 and cfg = cfg_lp64 and e = good_call and d = 2
      and c = 10 and s = "new_worker sample_region [good_call, bad_call]" and conts = "[False]"
      and p = 1 and q = 0]
  have f: "snd (stress_atomic_uint32 cfg_lp64 good_call 2 10) = (2.5, 74)"
    using t k by (simp add: atomic_func_info_def good_call_def)
  show ?thesis
    using t k ck cl f by (simp add: new_worker_def)
qed


section \<open>Properties of the fork-and-wait loops\<close>



lemma snd_emit: "snd (emit evs r) = snd r"
  by (simp add: emit_def)












subsection \<open>Sample runs\<close>






subsection \<open>Reaping a child in stress\_cgroup\_mount\<close>





subsection \<open>A fork that fails\<close>





section \<open>Properties of the deadline guard\<close>

lemma count_mmap_events [simp]: "count_list (mmap_events e p f) R_time_now = 0"
  by (simp add: mmap_events_def)

lemma count_dev_func_events [simp]: "count_list (dev_func_events cfg path) R_time_now = 0"
proof -
  have "count_list (concat (map (\<lambda>i. if P i then [R_dev_func i] else []) xs)) R_time_now = 0"
    for P and xs :: "nat list"
    by (induction xs) simp_all
  then show ?thesis by (simp add: dev_func_events_def)
qed

lemma ends_at_check_simps [simp]:
  "ends_at_check (tr @ [R_time_now])"
  "ends_at_check (tr @ [R_time_now, R_close])"
  "ends_at_check (tr @ [a, R_time_now])"
  "ends_at_check (tr @ [a, R_time_now, R_close])"
  "ends_at_check (tr @ [a, b, R_time_now])"
  "ends_at_check (tr @ [a, b, R_time_now, R_close])"
  by (simp_all add: ends_at_check_def)


lemma list_all_upt_Suc:
  "list_all P [1..<Suc (Suc k)] = (list_all P [1..<Suc k] \<and> P (Suc k))"
  by simp












lemma slow_device_run:
  "rw_pass cfg_linux (slow_device 100) ''/dev/ttyS0'' =
     \<lparr> rw_trace = [R_time_now, R_open_rdonly True, R_time_now, R_fstat, R_ioctl_tcgets,
                    R_lseek SEEK_SET, R_uint64_put, R_lseek SEEK_CUR, R_uint64_put,
                    R_lseek SEEK_END, R_uint64_put, R_time_now,
                    R_poll, R_time_now, R_close],
       rw_timeout = True, rw_checks = 3 \<rparr>"
  by (simp add: rw_pass_def slow_device_def cfg_linux_def exceeded_def threshold_def Let_def
      rw_done_def strncmp_ne_def)




section \<open>Properties of the directory walk\<close>


































end
